theory Spec2Isabelle
  imports Complex_Main "HOL-Library.Monad_Syntax"
begin

section \<open>Numbers\<close>

text \<open>
  The scripts compute with JavaScript Numbers. In the particle field they are idealised
  as reals: the arithmetic is exact (the source rounds every operation to a binary64
  value, and \<open>Math.hypot\<close> is implementation-approximated), and a quotient whose divisor
  is zero (in the source an infinity or a NaN, which no real stands for) is the value
  \<open>None\<close>. In the scheduler an elapsed time is compared with a rounded constant, and there
  the rounding is modelled. Integer-valued host attributes (core count, viewport and
  canvas dimensions) are naturals.
\<close>

definition num_div :: "real \<Rightarrow> real \<Rightarrow> real option" where
  "num_div a b = (if b = 0 then None else Some (a / b))"

text \<open>\<open>Math.hypot(a, b)\<close>.\<close>

definition hypot :: "real \<Rightarrow> real \<Rightarrow> real" where
  "hypot a b = sqrt (a * a + b * b)"

text \<open>\<open>v || d\<close> on a host attribute that may be undefined: zero is falsy as well.\<close>

definition or_default :: "'a::zero option \<Rightarrow> 'a \<Rightarrow> 'a" where
  "or_default v d = (case v of None \<Rightarrow> d | Some a \<Rightarrow> if a = 0 then d else a)"

text \<open>An array read \<open>xs[i]\<close>: \<open>None\<close> is \<open>undefined\<close>, the value out of range.\<close>

definition js_index :: "'a list \<Rightarrow> int \<Rightarrow> 'a option" where
  "js_index xs i = (if 0 \<le> i \<and> i < int (length xs) then Some (xs ! nat i) else None)"


subsection \<open>Binary64 rounding\<close>








section \<open>Device capability detector (js/3d-portfolio.js, lines 4-14)\<close>

text \<open>What the host reports when the module is loaded.\<close>

record host =
  hardwareConcurrency :: "nat option"
  deviceMemory :: "real option"
  innerWidth :: nat
  innerHeight :: nat
  prefersReducedMotion :: bool

record device =
  isLow :: bool
  isMid :: bool
  isHigh :: bool
  mobile :: bool
  reduced :: bool
  cores :: nat
  mem :: real

definition Device :: "host \<Rightarrow> device" where
  "Device w =
     (let c = or_default (hardwareConcurrency w) 2;
          m = or_default (deviceMemory w) 1;
          mob = innerWidth w < 768;
          red = prefersReducedMotion w;
          low = (red \<or> c \<le> 2 \<or> m < 2 \<or> (mob \<and> c \<le> 4));
          mid = (\<not> low \<and> (c \<le> 4 \<or> m < 4 \<or> mob));
          high = (\<not> low \<and> \<not> mid)
      in \<lparr>isLow = low, isMid = mid, isHigh = high, mobile = mob, reduced = red,
          cores = c, mem = m\<rparr>)"

datatype tier = Low | Mid | High

text \<open>The tier as the console branding reads it off the flags (line 684).\<close>

definition tier_of :: "device \<Rightarrow> tier" where
  "tier_of d = (if isHigh d then High else if isMid d then Mid else Low)"

text \<open>
  The classification rule in the specification's words, first match wins, over the core
  count, the memory estimate in GB, the viewport width and the reduced-motion preference.
\<close>

definition spec_tier :: "nat \<Rightarrow> real \<Rightarrow> nat \<Rightarrow> bool \<Rightarrow> tier" where
  "spec_tier c m width rm =
     (if rm \<or> c \<le> 2 \<or> m < 2 \<or> (width < 768 \<and> c \<le> 4) then Low
      else if c \<le> 4 \<or> m < 4 \<or> width < 768 then Mid
      else High)"


section \<open>Neural network particle field (js/3d-portfolio.js, lines 75-220)\<close>

record node =
  node_x :: real
  node_y :: real
  node_vx :: real
  node_vy :: real
  node_r :: real
  node_pulse :: real
  node_color :: "string option"

text \<open>
  The driver's own state: the node array, the pointer position, and the dimensions of
  the canvas it draws on.
\<close>

record neural =
  canvas_width :: nat
  canvas_height :: nat
  nodes :: "node list"
  mouse :: "real \<times> real"

definition colors :: "string list" where
  "colors = [''#00ff41'', ''#00f5d4'', ''#7c5cfc'']"

text \<open>
  One element of \<open>Array.from({ length: count }, ...)\<close>. The argument \<open>rnd\<close> gives the
  successive results of \<open>Math.random()\<close> inside the callback, in the order the object
  literal evaluates them.
\<close>

definition spawn_node :: "device \<Rightarrow> nat \<Rightarrow> nat \<Rightarrow> (nat \<Rightarrow> real) \<Rightarrow> node" where
  "spawn_node dev cw ch rnd =
     \<lparr>node_x = rnd 0 * real cw,
      node_y = rnd 1 * real ch,
      node_vx = (rnd 2 - 0.5) * (if isMid dev then 0.25 else 0.35),
      node_vy = (rnd 3 - 0.5) * (if isMid dev then 0.25 else 0.35),
      node_r = rnd 4 * 1.5 + 0.8,
      node_pulse = rnd 5 * pi * 2,
      node_color = js_index colors \<lfloor>rnd 6 * real (length colors)\<rfloor>\<rparr>"

text \<open>\<open>resize()\<close>, lines 99-102.\<close>

definition resize :: "host \<Rightarrow> neural \<Rightarrow> neural" where
  "resize w nn = nn\<lparr>canvas_width := innerWidth w, canvas_height := innerHeight w\<rparr>"

text \<open>
  \<open>spawnNodes()\<close>, lines 104-120. The area and the density are non-negative integers, so
  \<open>Math.floor(area / density)\<close> is the integer quotient. The random source \<open>rnd\<close> is the
  stream of \<open>Math.random()\<close> results; node \<open>i\<close> takes seven of them.
\<close>

definition spawnNodes :: "device \<Rightarrow> host \<Rightarrow> (nat \<Rightarrow> real) \<Rightarrow> neural \<Rightarrow> neural" where
  "spawnNodes dev w rnd nn =
     (let area = innerWidth w * innerHeight w;
          density = (if isMid dev then 28000 else 12000);
          count = min (area div density) (if isMid dev then 40 else 90)
      in nn\<lparr>nodes := map (\<lambda>i. spawn_node dev (canvas_width nn) (canvas_height nn)
                                (\<lambda>k. rnd (7 * i + k))) [0..<count]\<rparr>)"


text \<open>
  The handlers of \<open>bindEvents()\<close>, lines 122-144. The mouse listeners exist on a
  non-mobile viewport only, the touch listener on a mobile one only.
\<close>

definition sentinel :: "real \<times> real" where
  "sentinel = (-9999, -9999)"

definition on_mousemove :: "real \<Rightarrow> real \<Rightarrow> neural \<Rightarrow> neural" where
  "on_mousemove clientX clientY nn = nn\<lparr>mouse := (clientX, clientY)\<rparr>"

definition on_mouseleave :: "neural \<Rightarrow> neural" where
  "on_mouseleave nn = nn\<lparr>mouse := sentinel\<rparr>"

text \<open>
  \<open>e.touches[0].clientX\<close>: with no touch in the list the read of \<open>clientX\<close> throws inside
  the handler, before any assignment, and the state is as it was.
\<close>

definition on_touchmove :: "(real \<times> real) list \<Rightarrow> neural \<Rightarrow> neural" where
  "on_touchmove touches nn = (case touches of [] \<Rightarrow> nn | t # _ \<Rightarrow> nn\<lparr>mouse := t\<rparr>)"

text \<open>The body of the node loop of \<open>draw()\<close>, lines 152-186, one part after the other.\<close>

definition advance :: "node \<Rightarrow> node" where
  "advance n = n\<lparr>node_x := node_x n + node_vx n,
                 node_y := node_y n + node_vy n,
                 node_pulse := node_pulse n + 0.018\<rparr>"

definition mouseInf :: "device \<Rightarrow> real" where
  "mouseInf dev = (if isMid dev then 120 else 160)"

text \<open>Mouse repulsion, lines 157-165.\<close>

definition mouse_repulsion :: "device \<Rightarrow> real \<times> real \<Rightarrow> node \<Rightarrow> node option" where
  "mouse_repulsion dev ms n =
     (let mdx = node_x n - fst ms;
          mdy = node_y n - snd ms;
          md = hypot mdx mdy
      in if md < mouseInf dev \<and> md > 0 then
           do {
             q \<leftarrow> num_div (mouseInf dev - md) (mouseInf dev);
             ux \<leftarrow> num_div mdx md;
             uy \<leftarrow> num_div mdy md;
             Some (n\<lparr>node_vx := node_vx n + ux * (q * 0.7),
                     node_vy := node_vy n + uy * (q * 0.7)\<rparr>)
           }
         else Some n)"

text \<open>
  The speed cap, lines 167-168. The quotient and the two products are exact here; the
  source rounds each of them, so the magnitude it reaches after the rescale is 1.4 up to
  that rounding.
\<close>

definition clamp_speed :: "node \<Rightarrow> node option" where
  "clamp_speed n =
     (let speed = hypot (node_vx n) (node_vy n)
      in if speed > 1.4 then
           do {
             s \<leftarrow> num_div 1.4 speed;
             Some (n\<lparr>node_vx := node_vx n * s, node_vy := node_vy n * s\<rparr>)
           }
         else Some n)"

text \<open>Reflection at the canvas border and the clamp of the position, lines 170-173.\<close>

definition bounce :: "nat \<Rightarrow> nat \<Rightarrow> node \<Rightarrow> node" where
  "bounce cw ch n =
     n\<lparr>node_vx := (if node_x n < 0 \<or> node_x n > real cw then node_vx n * (-1) else node_vx n),
       node_vy := (if node_y n < 0 \<or> node_y n > real ch then node_vy n * (-1) else node_vy n),
       node_x := max 0 (min (real cw) (node_x n)),
       node_y := max 0 (min (real ch) (node_y n))\<rparr>"

text \<open>
  One pass of the loop body. The calls on the 2d context that follow (arc, fill, and the
  connection lines of lines 188-218) read the nodes and write pixels only; they are left
  out.
\<close>

definition draw_node :: "device \<Rightarrow> nat \<Rightarrow> nat \<Rightarrow> real \<times> real \<Rightarrow> node \<Rightarrow> node option" where
  "draw_node dev cw ch ms n =
     do {
       n1 \<leftarrow> mouse_repulsion dev ms (advance n);
       n2 \<leftarrow> clamp_speed n1;
       Some (bounce cw ch n2)
     }"

fun draw_nodes :: "device \<Rightarrow> nat \<Rightarrow> nat \<Rightarrow> real \<times> real \<Rightarrow> node list \<Rightarrow> node list option" where
  "draw_nodes dev cw ch ms [] = Some []"
| "draw_nodes dev cw ch ms (n # ns) =
     (case draw_node dev cw ch ms n of
        None \<Rightarrow> None
      | Some n' \<Rightarrow>
          (case draw_nodes dev cw ch ms ns of
             None \<Rightarrow> None
           | Some ns' \<Rightarrow> Some (n' # ns')))"

definition draw :: "device \<Rightarrow> neural \<Rightarrow> neural option" where
  "draw dev nn =
     (case draw_nodes dev (canvas_width nn) (canvas_height nn) (mouse nn) (nodes nn) of
        None \<Rightarrow> None
      | Some ns \<Rightarrow> Some (nn\<lparr>nodes := ns\<rparr>))"

text \<open>
  What reaches a constructed driver: pointer events, the debounced resize (with the
  viewport of that moment and the random source of the respawn), and the frames on which
  the throttled scheduler invokes \<open>draw()\<close>.
\<close>

datatype event =
    MouseMove real real
  | MouseLeave
  | TouchMove "(real \<times> real) list"
  | Resized host "nat \<Rightarrow> real"
  | Frame

fun handle :: "device \<Rightarrow> event \<Rightarrow> neural \<Rightarrow> neural option" where
  "handle dev (MouseMove clientX clientY) nn =
     Some (if mobile dev then nn else on_mousemove clientX clientY nn)"
| "handle dev MouseLeave nn = Some (if mobile dev then nn else on_mouseleave nn)"
| "handle dev (TouchMove touches) nn =
     Some (if mobile dev then on_touchmove touches nn else nn)"
| "handle dev (Resized w rnd) nn = Some (spawnNodes dev w rnd (resize w nn))"
| "handle dev Frame nn = draw dev nn"

fun run :: "device \<Rightarrow> event list \<Rightarrow> neural \<Rightarrow> neural option" where
  "run dev [] nn = Some nn"
| "run dev (e # es) nn =
     (case handle dev e nn of None \<Rightarrow> None | Some nn' \<Rightarrow> run dev es nn')"


section \<open>FPS throttle helper (js/3d-portfolio.js, lines 17-25)\<close>





section \<open>The page, and the constructors of the motion effects\<close>

text \<open>
  An element as far as the scripts read and write it: the inline \<open>style.display\<close>, the
  class list, the text, and \<open>dataset.text\<close>. A page maps the ids and selectors the scripts
  look up to the elements found, and lists what has been registered on the host: event
  listeners, animation-frame loops, intervals, timeouts and observers.
\<close>

record element =
  display :: string
  classList :: "string set"
  textContent :: string
  data_text :: "string option"

datatype schedule_handle =
    Listener string
  | ThrottledRAF real
  | AnimationFrame
  | Interval real
  | Timeout real
  | Observer string

record page =
  anchors :: "string \<rightharpoonup> element"
  handles :: "schedule_handle list"

datatype error = TypeError

definition register :: "schedule_handle list \<Rightarrow> page \<Rightarrow> page" where
  "register hs p = p\<lparr>handles := handles p @ hs\<rparr>"

text \<open>
  \<open>new MatrixRain()\<close>, lines 28-56. The result is the page and the fields of the object;
  \<open>None\<close> is the object the constructor returned from before setting any field.
\<close>

record matrix_rain =
  mr_fontSize :: nat
  mr_speed :: real
  mr_opacity :: real
  mr_width :: nat
  mr_height :: nat
  mr_cols :: nat
  mr_drops :: "real list"

definition MatrixRain :: "device \<Rightarrow> host \<Rightarrow> (nat \<Rightarrow> real) \<Rightarrow> page \<Rightarrow> page \<times> matrix_rain option" where
  "MatrixRain dev w rnd p =
     (if isLow dev then (p, None)
      else case anchors p ''matrix-canvas'' of
        None \<Rightarrow> (p, None)
      | Some canvas \<Rightarrow>
          (let fontSize = (if mobile dev then 11 else 13);
               cols = innerWidth w div fontSize;
               fps = (if isMid dev then 24 else 30)
           in (register [Listener ''resize'', ThrottledRAF fps] p,
               Some \<lparr>mr_fontSize = fontSize,
                     mr_speed = (if isMid dev then 0.3 else 0.45),
                     mr_opacity = (if isMid dev then 0.04 else 0.055),
                     mr_width = innerWidth w,
                     mr_height = innerHeight w,
                     mr_cols = cols,
                     mr_drops = map (\<lambda>i. rnd i * (-100)) [0..<cols]\<rparr>)))"

text \<open>\<open>new NeuralNetwork()\<close>, lines 75-97, with the listeners of \<open>bindEvents()\<close>.\<close>

definition NeuralNetwork :: "device \<Rightarrow> host \<Rightarrow> (nat \<Rightarrow> real) \<Rightarrow> page \<Rightarrow> page \<times> neural option" where
  "NeuralNetwork dev w rnd p =
     (if isLow dev then
        (case anchors p ''neural-canvas'' of
           None \<Rightarrow> (p, None)
         | Some c \<Rightarrow> (p\<lparr>anchors := (anchors p)(''neural-canvas'' \<mapsto> c\<lparr>display := ''none''\<rparr>)\<rparr>, None))
      else case anchors p ''neural-canvas'' of
        None \<Rightarrow> (p, None)
      | Some canvas \<Rightarrow>
          (let nn = spawnNodes dev w rnd
                      (resize w \<lparr>canvas_width = 0, canvas_height = 0, nodes = [], mouse = sentinel\<rparr>);
               fps = (if isMid dev then 30 else 60)
           in (register ([Listener ''resize''] @
                         (if \<not> mobile dev then [Listener ''mousemove'', Listener ''mouseleave'']
                          else [Listener ''touchmove'']) @
                         [ThrottledRAF fps]) p,
               Some nn)))"

text \<open>\<open>new GlitchText()\<close>, lines 223-236.\<close>

record glitch =
  gt_original :: string
  gt_glitching :: bool

definition GlitchText :: "device \<Rightarrow> page \<Rightarrow> page \<times> glitch option" where
  "GlitchText dev p =
     (if reduced dev then (p, None)
      else case anchors p ''.glitch-name'' of
        None \<Rightarrow> (p, None)
      | Some target \<Rightarrow>
          (register [Interval (if isLow dev then 8000 else if isMid dev then 6000 else 4000)] p,
           Some \<lparr>gt_original =
                   (case data_text target of
                      None \<Rightarrow> textContent target
                    | Some t \<Rightarrow> if t = [] then textContent target else t),
                 gt_glitching = False\<rparr>))"


section \<open>Navbar (js/3d-portfolio.js, lines 440-492)\<close>

text \<open>
  The constructor looks its three anchors up without a check and calls \<open>init()\<close>, which
  registers the scroll listener, the click listener of the toggle when there is one, one
  click listener for each of the \<open>n_links\<close> nav links, and the click listener of the
  document.
\<close>

record navbar =
  nb_nav :: "element option"
  nb_toggle :: "element option"
  nb_menu :: "element option"
  nb_ticking :: bool

definition Navbar :: "nat \<Rightarrow> page \<Rightarrow> page \<times> navbar" where
  "Navbar n_links p =
     (register ([Listener ''scroll''] @
                (case anchors p ''navToggle'' of None \<Rightarrow> [] | Some t \<Rightarrow> [Listener ''click'']) @
                replicate n_links (Listener ''click'') @
                [Listener ''click'']) p,
      \<lparr>nb_nav = anchors p ''navbar'', nb_toggle = anchors p ''navToggle'',
       nb_menu = anchors p ''navMenu'', nb_ticking = False\<rparr>)"

text \<open>The scroll listener, lines 452-461: whether it requested a frame, and the new state.\<close>

definition Navbar_scroll :: "navbar \<Rightarrow> bool \<times> navbar" where
  "Navbar_scroll nb = (if \<not> nb_ticking nb then (True, nb\<lparr>nb_ticking := True\<rparr>) else (False, nb))"

text \<open>
  The frame callback, lines 454-458. \<open>this.nav.classList\<close> throws when the lookup found no
  element, before \<open>ticking\<close> is reset. \<open>updateActive()\<close> toggles classes on the links only
  and is left out.
\<close>

definition Navbar_frame :: "real \<Rightarrow> navbar \<Rightarrow> error + navbar" where
  "Navbar_frame scrollY nb =
     (case nb_nav nb of
        None \<Rightarrow> Inl TypeError
      | Some e \<Rightarrow>
          Inr (nb\<lparr>nb_nav := Some (e\<lparr>classList := (if scrollY > 50 then insert ''scrolled'' (classList e)
                                                    else classList e - {''scrolled''})\<rparr>),
                   nb_ticking := False\<rparr>))"


section \<open>The earlier page script (unnamed/part_001)\<close>

text \<open>
  The script is one function run at load. The model keeps what each of its sections
  registers and where it throws: the particle background (lines 10-90) calls
  \<open>canvas.getContext\<close> on an unchecked lookup; the cursor glow (lines 93-110) checks its
  element; the typing animation (lines 113-144) writes \<open>heroRole.textContent\<close> unchecked;
  the navbar section (lines 147-184) registers the scroll listener and then calls
  \<open>navToggle.addEventListener\<close> unchecked; the remaining sections (lines 186-335) iterate
  over the node lists of \<open>querySelectorAll\<close> and register three observers (the listeners
  they put on each element found are not counted). The result is the uncaught error that
  ended the script, if any, and the page at that point.
\<close>

definition page_script :: "page \<Rightarrow> error option \<times> page" where
  "page_script p =
     (case anchors p ''particleCanvas'' of
        None \<Rightarrow> (Some TypeError, p)
      | Some canvas \<Rightarrow>
          (let p1 = register [Listener ''resize'', AnimationFrame,
                              Listener ''mousemove'', AnimationFrame] p
           in case anchors p1 ''heroRole'' of
                None \<Rightarrow> (Some TypeError, p1)
              | Some heroRole \<Rightarrow>
                  (let p2 = register [Timeout 120, Listener ''scroll'']
                              (p1\<lparr>anchors := (anchors p1)(''heroRole'' \<mapsto> heroRole\<lparr>textContent := ''E''\<rparr>)\<rparr>)
                   in case anchors p2 ''navToggle'' of
                        None \<Rightarrow> (Some TypeError, p2)
                      | Some navToggle \<Rightarrow>
                          (None, register [Listener ''click'', Observer ''reveal'',
                                           Observer ''counter'', Observer ''skill''] p2))))"


section \<open>Example hosts, nodes and pages\<close>

abbreviation desktop :: host where
  "desktop \<equiv> \<lparr>hardwareConcurrency = Some 8, deviceMemory = Some 8, innerWidth = 1024,
      innerHeight = 768, prefersReducedMotion = False\<rparr>"

abbreviation laptop :: host where
  "laptop \<equiv> \<lparr>hardwareConcurrency = Some 4, deviceMemory = Some 4, innerWidth = 1024,
      innerHeight = 768, prefersReducedMotion = False\<rparr>"

abbreviation calm :: host where
  "calm \<equiv> \<lparr>hardwareConcurrency = Some 8, deviceMemory = Some 8, innerWidth = 1024,
      innerHeight = 768, prefersReducedMotion = True\<rparr>"

abbreviation node0 :: node where
  "node0 \<equiv> \<lparr>node_x = 100, node_y = 100, node_vx = 3, node_vy = 4, node_r = 1,
      node_pulse = 0, node_color = Some ''#00ff41''\<rparr>"

abbreviation node1 :: node where
  "node1 \<equiv> \<lparr>node_x = 103, node_y = 104, node_vx = 0, node_vy = 0, node_r = 1,
      node_pulse = 0, node_color = Some ''#00ff41''\<rparr>"

abbreviation node2 :: node where
  "node2 \<equiv> \<lparr>node_x = 1023.5, node_y = 100, node_vx = 1, node_vy = 0, node_r = 1,
      node_pulse = 0, node_color = Some ''#00ff41''\<rparr>"

abbreviation field0 :: neural where
  "field0 \<equiv> \<lparr>canvas_width = 1024, canvas_height = 768, nodes = [node0], mouse = sentinel\<rparr>"

abbreviation shown :: element where
  "shown \<equiv> \<lparr>display = [], classList = {}, textContent = [], data_text = None\<rparr>"

text \<open>
  A page with the canvases of the motion effects, the glitch text, the typing headline and
  the nav toggle and menu, and with neither \<open>#particleCanvas\<close> nor \<open>#navbar\<close>.
\<close>

abbreviation page0 :: page where
  "page0 \<equiv> \<lparr>anchors = [''matrix-canvas'' \<mapsto> shown, ''neural-canvas'' \<mapsto> shown,
                         ''.glitch-name'' \<mapsto> shown, ''heroRole'' \<mapsto> shown,
                         ''navToggle'' \<mapsto> shown, ''navMenu'' \<mapsto> shown],
             handles = []\<rparr>"


section \<open>Properties of the capability detector\<close>

lemma Device_flags:
  "isLow (Device w) = (prefersReducedMotion w \<or> cores (Device w) \<le> 2 \<or> mem (Device w) < 2 \<or>
      (innerWidth w < 768 \<and> cores (Device w) \<le> 4))"
  "isMid (Device w) = (\<not> isLow (Device w) \<and>
      (cores (Device w) \<le> 4 \<or> mem (Device w) < 4 \<or> innerWidth w < 768))"
  "isHigh (Device w) = (\<not> isLow (Device w) \<and> \<not> isMid (Device w))"
  by (simp_all add: Device_def Let_def)

text \<open>
  C1. The tier flags are a function of the core count, the memory estimate, the mobile
  viewport flag and the reduced-motion flag, and agree with the first-match-wins rule of
  the specification: Low iff reduced motion, or at most 2 cores, or less than 2 GB, or a
  viewport narrower than 768px with at most 4 cores; Mid iff not Low and at most 4 cores,
  or less than 4 GB, or a narrow viewport; High otherwise. The core count and the memory
  are the ones the host reports, and 2 and 1 when it reports none (or zero).
\<close>

theorem Device_agrees_with_rule:
  "isLow (Device w) =
     (spec_tier (cores (Device w)) (mem (Device w)) (innerWidth w) (prefersReducedMotion w) = Low)
   \<and> isMid (Device w) =
     (spec_tier (cores (Device w)) (mem (Device w)) (innerWidth w) (prefersReducedMotion w) = Mid)
   \<and> isHigh (Device w) =
     (spec_tier (cores (Device w)) (mem (Device w)) (innerWidth w) (prefersReducedMotion w) = High)
   \<and> tier_of (Device w) =
     spec_tier (cores (Device w)) (mem (Device w)) (innerWidth w) (prefersReducedMotion w)
   \<and> mobile (Device w) = (innerWidth w < 768)
   \<and> reduced (Device w) = prefersReducedMotion w
   \<and> cores (Device (w\<lparr>hardwareConcurrency := None\<rparr>)) = 2
   \<and> mem (Device (w\<lparr>deviceMemory := None\<rparr>)) = 1
   \<and> cores (Device (w\<lparr>hardwareConcurrency := Some (Suc n)\<rparr>)) = Suc n
   \<and> cores (Device w) =
       (case hardwareConcurrency w of None \<Rightarrow> 2 | Some c \<Rightarrow> if c = 0 then 2 else c)
   \<and> mem (Device w) =
       (case deviceMemory w of None \<Rightarrow> 1 | Some m \<Rightarrow> if m = 0 then 1 else m)
   \<and> tier_of (Device w) =
       spec_tier
         (case hardwareConcurrency w of None \<Rightarrow> 2 | Some c \<Rightarrow> if c = 0 then 2 else c)
         (case deviceMemory w of None \<Rightarrow> 1 | Some m \<Rightarrow> if m = 0 then 1 else m)
         (innerWidth w) (prefersReducedMotion w)"
  by (simp add: Device_def Let_def spec_tier_def tier_of_def or_default_def
      split: option.splits)

theorem Device_agrees_with_rule_witness:
  "tier_of (Device desktop) = High
   \<and> tier_of (Device laptop) = Mid
   \<and> tier_of (Device (desktop\<lparr>deviceMemory := None\<rparr>)) = Low
   \<and> tier_of (Device calm) = Low
   \<and> mem (Device (desktop\<lparr>deviceMemory := Some 0.25\<rparr>)) = 0.25
   \<and> tier_of (Device (desktop\<lparr>deviceMemory := Some 0.25\<rparr>)) = Low
   \<and> isLow (Device (desktop\<lparr>deviceMemory := Some 0.25\<rparr>))
   \<and> tier_of (Device (desktop\<lparr>deviceMemory := Some 2\<rparr>)) = Mid
   \<and> tier_of (Device (desktop\<lparr>hardwareConcurrency := Some 2\<rparr>)) = Low
   \<and> tier_of (Device (desktop\<lparr>innerWidth := 600\<rparr>)) = Mid
   \<and> tier_of (Device (laptop\<lparr>innerWidth := 600\<rparr>)) = Low"
proof -
  have t: "tier_of (Device w) =
       spec_tier
         (case hardwareConcurrency w of None \<Rightarrow> 2 | Some c \<Rightarrow> if c = 0 then 2 else c)
         (case deviceMemory w of None \<Rightarrow> 1 | Some m \<Rightarrow> if m = 0 then 1 else m)
         (innerWidth w) (prefersReducedMotion w)"
    and l: "isLow (Device w) =
       (spec_tier (cores (Device w)) (mem (Device w)) (innerWidth w) (prefersReducedMotion w) = Low)"
    and m: "mem (Device w) =
       (case deviceMemory w of None \<Rightarrow> 1 | Some m \<Rightarrow> if m = 0 then 1 else m)"
    and c: "cores (Device w) =
       (case hardwareConcurrency w of None \<Rightarrow> 2 | Some c \<Rightarrow> if c = 0 then 2 else c)"
    for w
    using Device_agrees_with_rule [of w 0] by blast+
  show ?thesis
    by (simp add: t l m c spec_tier_def)
qed

text \<open>
  C9. For every host, exactly one of the three flags \<open>isLow\<close>, \<open>isMid\<close>, \<open>isHigh\<close> is
  true: the classification is mutually exclusive and exhaustive.
\<close>

theorem Device_exactly_one_tier:
  "length (filter (\<lambda>b. b) [isLow (Device w), isMid (Device w), isHigh (Device w)]) = 1
   \<and> ((isLow (Device w) \<and> \<not> isMid (Device w) \<and> \<not> isHigh (Device w))
      \<or> (isMid (Device w) \<and> \<not> isLow (Device w) \<and> \<not> isHigh (Device w))
      \<or> (isHigh (Device w) \<and> \<not> isLow (Device w) \<and> \<not> isMid (Device w)))"
  by (auto simp add: Device_def Let_def)


section \<open>Properties of the node count\<close>

lemma length_spawnNodes:
  "length (nodes (spawnNodes dev v rnd nn)) =
     min (innerWidth v * innerHeight v div (if isMid dev then 28000 else 12000))
         (if isMid dev then 40 else 90)"
  by (simp add: spawnNodes_def Let_def)

text \<open>
  C4. The node count depends on the viewport area and the tier only: it is
  \<open>min (floor (width * height / density)) cap\<close> with density 12000 and cap 90 on the High
  tier, density 28000 and cap 40 on the Mid tier; a 1024 by 768 viewport on the High tier
  gives 65 nodes; and spawning again for the same viewport, as two resizes to the same
  dimensions do, gives the same count whatever the random source and the previous state.
\<close>

theorem spawnNodes_count:
  "(isHigh (Device w) \<longrightarrow>
      length (nodes (spawnNodes (Device w) v rnd nn)) =
        min (innerWidth v * innerHeight v div 12000) 90)
   \<and> (isMid (Device w) \<longrightarrow>
      length (nodes (spawnNodes (Device w) v rnd nn)) =
        min (innerWidth v * innerHeight v div 28000) 40)
   \<and> (isHigh (Device w) \<and> innerWidth v = 1024 \<and> innerHeight v = 768 \<longrightarrow>
      length (nodes (spawnNodes (Device w) v rnd nn)) = 65)
   \<and> length (nodes (spawnNodes (Device w) v rnd' nn')) =
      length (nodes (spawnNodes (Device w) v rnd nn))
   \<and> length (nodes (spawnNodes (Device w) v rnd' (spawnNodes (Device w) v rnd nn))) =
      length (nodes (spawnNodes (Device w) v rnd nn))
   \<and> (\<exists>nn1 nn2. handle (Device w) (Resized v rnd) nn = Some nn1 \<and>
        handle (Device w) (Resized v rnd') nn1 = Some nn2 \<and>
        length (nodes nn2) = length (nodes nn1))"
  by (simp add: length_spawnNodes Device_flags(3))

theorem spawnNodes_count_witness:
  "isHigh (Device desktop)
   \<and> length (nodes (spawnNodes (Device desktop) desktop (\<lambda>k. 0) field0)) = 65
   \<and> isMid (Device laptop)
   \<and> length (nodes (spawnNodes (Device laptop) laptop (\<lambda>k. 0) field0)) = 28"
  using spawnNodes_count [of desktop desktop "\<lambda>k. 0" field0]
    spawnNodes_count [of laptop laptop "\<lambda>k. 0" field0]
  by (simp add: Device_def Let_def or_default_def)


section \<open>Properties of binary64 rounding\<close>
























section \<open>Properties of the rate-limited scheduler\<close>











section \<open>Properties of the draw step\<close>

subsection \<open>Euclidean length\<close>

lemma hypot_nonneg: "0 \<le> hypot a b"
  by (simp add: hypot_def)

lemma hypot_scale: "hypot (a * s) (b * s) = \<bar>s\<bar> * hypot a b"
proof -
  have "(a * s) * (a * s) + (b * s) * (b * s) = (s * s) * (a * a + b * b)"
    by (simp add: algebra_simps)
  then show ?thesis
    by (simp add: hypot_def real_sqrt_mult)
qed

lemma hypot_ge_fst: "\<bar>a\<bar> \<le> hypot a b"
  unfolding hypot_def by (rule real_le_rsqrt) (simp add: power2_eq_square)

lemma hypot_ge_snd: "\<bar>b\<bar> \<le> hypot a b"
  unfolding hypot_def by (rule real_le_rsqrt) (simp add: power2_eq_square)

lemma hypot_3_4: "hypot 3 4 = 5"
proof -
  have "sqrt (5 * 5) = 5" by (rule real_sqrt_unique) (simp_all add: power2_eq_square)
  then show ?thesis by (simp add: hypot_def)
qed

subsection \<open>The parts of the loop body\<close>

lemma mouseInf_pos: "0 < mouseInf dev"
  by (simp add: mouseInf_def)

lemma mouseInf_le: "mouseInf dev \<le> 160"
  by (simp add: mouseInf_def)

lemma mouse_repulsion_Some:
  "\<exists>n'. mouse_repulsion dev ms n = Some n'"
  using mouseInf_pos [of dev]
  by (auto simp add: mouse_repulsion_def Let_def num_div_def)

lemma mouse_repulsion_pos:
  "mouse_repulsion dev ms n = Some n' \<Longrightarrow> node_x n' = node_x n \<and> node_y n' = node_y n"
  by (auto simp add: mouse_repulsion_def Let_def num_div_def split: if_splits)

lemma mouse_repulsion_far:
  assumes "mouseInf dev \<le> hypot (node_x n - fst ms) (node_y n - snd ms)"
  shows "mouse_repulsion dev ms n = Some n"
  using assms by (simp add: mouse_repulsion_def Let_def)

lemma mouse_repulsion_zero:
  assumes "hypot (node_x n - fst ms) (node_y n - snd ms) = 0"
  shows "mouse_repulsion dev ms n = Some n"
  using assms by (simp add: mouse_repulsion_def Let_def)

lemma mouse_repulsion_near:
  fixes n ms dev
  defines "mdx \<equiv> node_x n - fst ms" and "mdy \<equiv> node_y n - snd ms"
  defines "d \<equiv> hypot mdx mdy"
  defines "force \<equiv> (mouseInf dev - d) / mouseInf dev * 0.7"
  assumes "0 < d" "d < mouseInf dev"
  shows "mouse_repulsion dev ms n =
      Some (n\<lparr>node_vx := node_vx n + mdx / d * force, node_vy := node_vy n + mdy / d * force\<rparr>)"
    and "0 < force" and "hypot (mdx / d) (mdy / d) = 1"
    and "hypot (mdx / d * force) (mdy / d * force) = force"
proof -
  have R: "0 < mouseInf dev" by (rule mouseInf_pos)
  show "mouse_repulsion dev ms n =
      Some (n\<lparr>node_vx := node_vx n + mdx / d * force, node_vy := node_vy n + mdy / d * force\<rparr>)"
    using assms(5,6) R
    by (simp add: mouse_repulsion_def Let_def num_div_def mdx_def mdy_def d_def force_def)
  show f: "0 < force" using assms(5,6) R by (simp add: force_def)
  have "hypot (mdx * (1 / d)) (mdy * (1 / d)) = \<bar>1 / d\<bar> * hypot mdx mdy"
    by (rule hypot_scale)
  also have "\<dots> = 1" using assms(5) by (simp add: d_def [symmetric])
  finally show u: "hypot (mdx / d) (mdy / d) = 1" by simp
  have "hypot (mdx / d * force) (mdy / d * force) = \<bar>force\<bar> * hypot (mdx / d) (mdy / d)"
    by (rule hypot_scale)
  with u f show "hypot (mdx / d * force) (mdy / d * force) = force" by simp
qed

lemma sentinel_far:
  assumes "-9000 \<le> node_x n"
  shows "mouse_repulsion dev sentinel n = Some n"
proof (rule mouse_repulsion_far)
  have "mouseInf dev \<le> \<bar>node_x n - fst sentinel\<bar>"
    using assms mouseInf_le [of dev] by (simp add: sentinel_def)
  also have "\<dots> \<le> hypot (node_x n - fst sentinel) (node_y n - snd sentinel)"
    by (rule hypot_ge_fst)
  finally show "mouseInf dev \<le> hypot (node_x n - fst sentinel) (node_y n - snd sentinel)" .
qed

lemma clamp_speed_Some: "\<exists>n'. clamp_speed n = Some n'"
  by (auto simp add: clamp_speed_def Let_def num_div_def)

lemma clamp_speed_le:
  assumes "clamp_speed n = Some n'"
  shows "hypot (node_vx n') (node_vy n') \<le> 1.4"
proof (cases "hypot (node_vx n) (node_vy n) > 1.4")
  case True
  define sp where "sp = hypot (node_vx n) (node_vy n)"
  define s where "s = 1.4 / sp"
  from True have pos: "0 < sp" by (simp add: sp_def)
  then have s_pos: "0 < s" by (simp add: s_def)
  from True assms pos have n': "n' = n\<lparr>node_vx := node_vx n * s, node_vy := node_vy n * s\<rparr>"
    by (auto simp add: clamp_speed_def Let_def num_div_def sp_def s_def)
  have "hypot (node_vx n') (node_vy n') = \<bar>s\<bar> * sp"
    unfolding n' sp_def by (simp add: hypot_scale)
  also have "\<dots> = s * sp" using s_pos by simp
  also have "\<dots> = 1.4" using pos by (simp add: s_def)
  finally show ?thesis by simp
next
  case False
  with assms show ?thesis by (auto simp add: clamp_speed_def Let_def)
qed

lemma clamp_speed_exact:
  assumes "hypot (node_vx n) (node_vy n) > 1.4"
  shows "\<exists>n'. clamp_speed n = Some n' \<and> hypot (node_vx n') (node_vy n') = 1.4"
proof -
  define sp where "sp = hypot (node_vx n) (node_vy n)"
  define s where "s = 1.4 / sp"
  from assms have pos: "0 < sp" by (simp add: sp_def)
  then have s_pos: "0 < s" by (simp add: s_def)
  let ?n' = "n\<lparr>node_vx := node_vx n * s, node_vy := node_vy n * s\<rparr>"
  from assms pos have eq: "clamp_speed n = Some ?n'"
    by (auto simp add: clamp_speed_def Let_def num_div_def sp_def s_def)
  have "hypot (node_vx ?n') (node_vy ?n') = \<bar>s\<bar> * sp"
    unfolding sp_def by (simp add: hypot_scale)
  also have "\<dots> = s * sp" using s_pos by simp
  also have "\<dots> = 1.4" using pos by (simp add: s_def)
  finally show ?thesis using eq by simp
qed

lemma clamp_speed_id:
  "hypot (node_vx n) (node_vy n) \<le> 1.4 \<Longrightarrow> clamp_speed n = Some n"
  by (simp add: clamp_speed_def Let_def)

lemma clamp_speed_pos:
  "clamp_speed n = Some n' \<Longrightarrow> node_x n' = node_x n \<and> node_y n' = node_y n"
  by (auto simp add: clamp_speed_def Let_def num_div_def split: if_splits)

lemma bounce_speed:
  "hypot (node_vx (bounce cw ch n)) (node_vy (bounce cw ch n)) = hypot (node_vx n) (node_vy n)"
  by (simp add: bounce_def hypot_def)

lemma bounce_bounds:
  "0 \<le> node_x (bounce cw ch n) \<and> node_x (bounce cw ch n) \<le> real cw \<and>
   0 \<le> node_y (bounce cw ch n) \<and> node_y (bounce cw ch n) \<le> real ch"
  by (simp add: bounce_def)

lemma draw_node_steps:
  "\<exists>n1 n2. mouse_repulsion dev ms (advance n) = Some n1 \<and> clamp_speed n1 = Some n2 \<and>
      draw_node dev cw ch ms n = Some (bounce cw ch n2)"
proof -
  obtain n1 where n1: "mouse_repulsion dev ms (advance n) = Some n1"
    using mouse_repulsion_Some by blast
  obtain n2 where n2: "clamp_speed n1 = Some n2"
    using clamp_speed_Some by blast
  from n1 n2 show ?thesis by (simp add: draw_node_def)
qed

lemma draw_node_invariant:
  assumes "draw_node dev cw ch ms n = Some n'"
  shows "hypot (node_vx n') (node_vy n') \<le> 1.4"
    and "0 \<le> node_x n'" and "node_x n' \<le> real cw"
    and "0 \<le> node_y n'" and "node_y n' \<le> real ch"
proof -
  obtain n1 n2 where s: "mouse_repulsion dev ms (advance n) = Some n1" "clamp_speed n1 = Some n2"
      "draw_node dev cw ch ms n = Some (bounce cw ch n2)"
    using draw_node_steps by blast
  with assms have n': "n' = bounce cw ch n2" by simp
  show "hypot (node_vx n') (node_vy n') \<le> 1.4"
    using clamp_speed_le [OF s(2)] by (simp add: n' bounce_speed)
  show "0 \<le> node_x n'" "node_x n' \<le> real cw" "0 \<le> node_y n'" "node_y n' \<le> real ch"
    using bounce_bounds [of cw ch n2] by (simp_all add: n')
qed

lemma draw_node_near:
  fixes n ms dev
  defines "a \<equiv> advance n"
  defines "mdx \<equiv> node_x a - fst ms" and "mdy \<equiv> node_y a - snd ms"
  defines "d \<equiv> hypot mdx mdy"
  defines "force \<equiv> (mouseInf dev - d) / mouseInf dev * 0.7"
  assumes "0 < d" "d < mouseInf dev"
  shows "draw_node dev cw ch ms n =
      clamp_speed (a\<lparr>node_vx := node_vx a + mdx / d * force,
                     node_vy := node_vy a + mdy / d * force\<rparr>)
        \<bind> (\<lambda>n2. Some (bounce cw ch n2))"
  using mouse_repulsion_near(1) [of a ms dev] assms(6,7)
  by (simp add: draw_node_def a_def mdx_def mdy_def d_def force_def)

lemma draw_node_far:
  assumes "mouseInf dev \<le> hypot (node_x (advance n) - fst ms) (node_y (advance n) - snd ms)
      \<or> hypot (node_x (advance n) - fst ms) (node_y (advance n) - snd ms) = 0"
  shows "draw_node dev cw ch ms n = clamp_speed (advance n) \<bind> (\<lambda>n2. Some (bounce cw ch n2))"
  using assms mouse_repulsion_far [of dev "advance n" ms] mouse_repulsion_zero [of "advance n" ms dev]
  by (auto simp add: draw_node_def)

subsection \<open>The whole tick, and sequences of events\<close>

lemma draw_nodes_Some: "\<exists>ns'. draw_nodes dev cw ch ms ns = Some ns'"
proof (induction ns)
  case Nil
  show ?case by simp
next
  case (Cons n ns)
  obtain n' where "draw_node dev cw ch ms n = Some n'"
    using draw_node_steps by blast
  with Cons show ?case by auto
qed

lemma draw_nodes_members:
  "draw_nodes dev cw ch ms ns = Some ns' \<Longrightarrow>
     length ns' = length ns \<and> (\<forall>n' \<in> set ns'. \<exists>n \<in> set ns. draw_node dev cw ch ms n = Some n')"
proof (induction ns arbitrary: ns')
  case Nil
  then show ?case by simp
next
  case (Cons n ns)
  then show ?case by (auto split: option.splits)
qed

lemma draw_nodes_nth:
  "draw_nodes dev cw ch ms ns = Some ns' \<Longrightarrow>
     length ns' = length ns \<and>
     (\<forall>i < length ns. draw_node dev cw ch ms (ns ! i) = Some (ns' ! i))"
proof (induction ns arbitrary: ns')
  case Nil
  then show ?case by simp
next
  case (Cons n ns)
  then obtain n' ms' where s: "draw_node dev cw ch ms n = Some n'"
      "draw_nodes dev cw ch ms ns = Some ms'" "ns' = n' # ms'"
    by (auto split: option.splits)
  from Cons.IH [OF s(2)] s(1,3) show ?case
    by (auto simp add: nth_Cons split: nat.splits)
qed

lemma draw_Some: "\<exists>nn'. draw dev nn = Some nn'"
proof -
  obtain ns where "draw_nodes dev (canvas_width nn) (canvas_height nn) (mouse nn) (nodes nn) = Some ns"
    using draw_nodes_Some by blast
  then show ?thesis by (simp add: draw_def)
qed

lemma draw_applies_loop_body:
  "\<exists>nn'. draw dev nn = Some nn' \<and> mouse nn' = mouse nn \<and>
      length (nodes nn') = length (nodes nn) \<and>
      (\<forall>i < length (nodes nn).
         draw_node dev (canvas_width nn) (canvas_height nn) (mouse nn) (nodes nn ! i) =
           Some (nodes nn' ! i))"
proof -
  obtain ns where ns: "draw_nodes dev (canvas_width nn) (canvas_height nn) (mouse nn) (nodes nn) = Some ns"
    using draw_nodes_Some by blast
  then have "draw dev nn = Some (nn\<lparr>nodes := ns\<rparr>)" by (simp add: draw_def)
  with draw_nodes_nth [OF ns] show ?thesis by simp
qed

lemma draw_invariant:
  assumes "draw dev nn = Some nn'"
  shows "canvas_width nn' = canvas_width nn" "canvas_height nn' = canvas_height nn"
    "mouse nn' = mouse nn" "length (nodes nn') = length (nodes nn)"
    "\<forall>n \<in> set (nodes nn'). hypot (node_vx n) (node_vy n) \<le> 1.4 \<and>
        0 \<le> node_x n \<and> node_x n \<le> real (canvas_width nn') \<and>
        0 \<le> node_y n \<and> node_y n \<le> real (canvas_height nn')"
proof -
  obtain ns where ns: "draw_nodes dev (canvas_width nn) (canvas_height nn) (mouse nn) (nodes nn) = Some ns"
    using draw_nodes_Some by blast
  with assms have nn': "nn' = nn\<lparr>nodes := ns\<rparr>" by (simp add: draw_def)
  show "canvas_width nn' = canvas_width nn" "canvas_height nn' = canvas_height nn"
    "mouse nn' = mouse nn" by (simp_all add: nn')
  show "length (nodes nn') = length (nodes nn)"
    using draw_nodes_members [OF ns] by (simp add: nn')
  show "\<forall>n \<in> set (nodes nn'). hypot (node_vx n) (node_vy n) \<le> 1.4 \<and>
        0 \<le> node_x n \<and> node_x n \<le> real (canvas_width nn') \<and>
        0 \<le> node_y n \<and> node_y n \<le> real (canvas_height nn')"
  proof
    fix n' assume "n' \<in> set (nodes nn')"
    then have "n' \<in> set ns" by (simp add: nn')
    with draw_nodes_members [OF ns] obtain n
      where "draw_node dev (canvas_width nn) (canvas_height nn) (mouse nn) n = Some n'" by blast
    from draw_node_invariant [OF this]
    show "hypot (node_vx n') (node_vy n') \<le> 1.4 \<and>
        0 \<le> node_x n' \<and> node_x n' \<le> real (canvas_width nn') \<and>
        0 \<le> node_y n' \<and> node_y n' \<le> real (canvas_height nn')"
      by (simp add: nn')
  qed
qed

lemma handle_Some: "\<exists>nn'. handle dev e nn = Some nn'"
  by (cases e) (simp_all add: draw_Some)

lemma run_Some: "\<exists>nn'. run dev es nn = Some nn'"
proof (induction es arbitrary: nn)
  case Nil
  show ?case by simp
next
  case (Cons e es)
  obtain nn1 where "handle dev e nn = Some nn1" using handle_Some by blast
  with Cons show ?case by simp
qed

lemma run_append:
  "run dev (es @ fs) nn = (case run dev es nn of None \<Rightarrow> None | Some nn1 \<Rightarrow> run dev fs nn1)"
  by (induction es arbitrary: nn) (simp_all split: option.splits)

lemma run_then_Frame:
  "\<exists>nn1 nn'. run dev es nn = Some nn1 \<and> draw dev nn1 = Some nn' \<and>
      run dev (es @ [Frame]) nn = Some nn'"
proof -
  obtain nn1 where a: "run dev es nn = Some nn1" using run_Some by blast
  obtain nn' where b: "draw dev nn1 = Some nn'" using draw_Some by blast
  from a b show ?thesis by (simp add: run_append)
qed

lemma Device_desktop:
  "Device desktop = \<lparr>isLow = False, isMid = False, isHigh = True, mobile = False,
      reduced = False, cores = 8, mem = 8\<rparr>"
  by (simp add: Device_def Let_def or_default_def)

lemma draw_node2:
  "draw_node (Device desktop) 1024 768 sentinel node2 =
     Some (node2\<lparr>node_x := 1024, node_vx := -1, node_pulse := 0.018\<rparr>)"
proof -
  have rep: "mouse_repulsion (Device desktop) sentinel (advance node2) = Some (advance node2)"
    by (rule sentinel_far) (simp add: advance_def)
  have "hypot 1 0 = 1" by (simp add: hypot_def)
  then have cl: "clamp_speed (advance node2) = Some (advance node2)"
    by (simp add: clamp_speed_def advance_def)
  from rep cl show ?thesis
    by (simp add: draw_node_def bounce_def advance_def)
qed

subsection \<open>Mouse repulsion\<close>

text \<open>
  C6. In a draw tick, which runs the loop body on every node with the pointer position
  the driver holds, a node at distance \<open>d\<close> from the pointer (after its position update)
  gets a velocity impulse iff \<open>0 < d\<close> and \<open>d\<close> is less than the influence radius (120 on
  Mid, 160 otherwise): the impulse is \<open>(influenceRadius - d) / influenceRadius * 0.7\<close> long
  and points along the unit vector from the pointer to the node; a node at distance at
  least the radius, or at distance 0, gets none; with the pointer at the sentinel
  (-9999, -9999), where \<open>mouseleave\<close> puts it, no node inside the viewport is influenced.
\<close>

theorem mouse_repulsion_impulse:
  "(let mdx = node_x n - fst ms; mdy = node_y n - snd ms; d = hypot mdx mdy;
        force = (mouseInf dev - d) / mouseInf dev * 0.7
    in (0 < d \<and> d < mouseInf dev \<longrightarrow>
          mouse_repulsion dev ms n =
            Some (n\<lparr>node_vx := node_vx n + mdx / d * force,
                    node_vy := node_vy n + mdy / d * force\<rparr>)
          \<and> 0 < force
          \<and> hypot (mdx / d) (mdy / d) = 1
          \<and> hypot (mdx / d * force) (mdy / d * force) = force)
       \<and> (mouseInf dev \<le> d \<or> d = 0 \<longrightarrow> mouse_repulsion dev ms n = Some n))
   \<and> (0 \<le> node_x n \<and> 0 \<le> node_y n \<longrightarrow> mouse_repulsion dev sentinel n = Some n)
   \<and> (0 \<le> node_x n \<and> 0 \<le> node_y n \<and> hypot (node_vx n) (node_vy n) \<le> 1.4 \<longrightarrow>
        mouse_repulsion dev sentinel (advance n) = Some (advance n))
   \<and> (\<not> mobile dev \<longrightarrow> handle dev MouseLeave nn = Some (nn\<lparr>mouse := (-9999, -9999)\<rparr>))
   \<and> mouseInf dev = (if isMid dev then 120 else 160)
   \<and> (let a = advance n; mdx = node_x a - fst ms; mdy = node_y a - snd ms; d = hypot mdx mdy;
            force = (mouseInf dev - d) / mouseInf dev * 0.7
        in (0 < d \<and> d < mouseInf dev \<longrightarrow>
              draw_node dev cw ch ms n =
                clamp_speed (a\<lparr>node_vx := node_vx a + mdx / d * force,
                               node_vy := node_vy a + mdy / d * force\<rparr>)
                  \<bind> (\<lambda>n2. Some (bounce cw ch n2)))
           \<and> (mouseInf dev \<le> d \<or> d = 0 \<longrightarrow>
              draw_node dev cw ch ms n =
                clamp_speed a \<bind> (\<lambda>n2. Some (bounce cw ch n2))))
   \<and> (0 \<le> node_x (advance n) \<and> 0 \<le> node_y (advance n) \<longrightarrow>
        draw_node dev cw ch sentinel n =
          clamp_speed (advance n) \<bind> (\<lambda>n2. Some (bounce cw ch n2)))
   \<and> (\<exists>nn'. draw dev nn = Some nn' \<and> mouse nn' = mouse nn \<and>
         length (nodes nn') = length (nodes nn) \<and>
         (\<forall>i < length (nodes nn).
            draw_node dev (canvas_width nn) (canvas_height nn) (mouse nn) (nodes nn ! i) =
              Some (nodes nn' ! i)))
   \<and> handle dev Frame nn = draw dev nn
   \<and> (\<not> mobile dev \<longrightarrow>
        handle dev (MouseMove clientX clientY) nn = Some (nn\<lparr>mouse := (clientX, clientY)\<rparr>))
   \<and> (mobile dev \<longrightarrow>
        handle dev (TouchMove (touch # touches)) nn = Some (nn\<lparr>mouse := touch\<rparr>))"
proof (intro conjI)
  show "let mdx = node_x n - fst ms; mdy = node_y n - snd ms; d = hypot mdx mdy;
        force = (mouseInf dev - d) / mouseInf dev * 0.7
    in (0 < d \<and> d < mouseInf dev \<longrightarrow>
          mouse_repulsion dev ms n =
            Some (n\<lparr>node_vx := node_vx n + mdx / d * force,
                    node_vy := node_vy n + mdy / d * force\<rparr>)
          \<and> 0 < force
          \<and> hypot (mdx / d) (mdy / d) = 1
          \<and> hypot (mdx / d * force) (mdy / d * force) = force)
       \<and> (mouseInf dev \<le> d \<or> d = 0 \<longrightarrow> mouse_repulsion dev ms n = Some n)"
    unfolding Let_def
    using mouse_repulsion_near [of n ms dev] mouse_repulsion_far [of dev n ms]
      mouse_repulsion_zero [of n ms dev]
    by blast
  show "0 \<le> node_x n \<and> 0 \<le> node_y n \<longrightarrow> mouse_repulsion dev sentinel n = Some n"
    using sentinel_far [of n dev] by simp
  show "0 \<le> node_x n \<and> 0 \<le> node_y n \<and> hypot (node_vx n) (node_vy n) \<le> 1.4 \<longrightarrow>
        mouse_repulsion dev sentinel (advance n) = Some (advance n)"
  proof
    assume a: "0 \<le> node_x n \<and> 0 \<le> node_y n \<and> hypot (node_vx n) (node_vy n) \<le> 1.4"
    have "\<bar>node_vx n\<bar> \<le> hypot (node_vx n) (node_vy n)" by (rule hypot_ge_fst)
    with a have "\<bar>node_vx n\<bar> \<le> 1.4" by linarith
    with a have "-9000 \<le> node_x n + node_vx n" by linarith
    then have "-9000 \<le> node_x (advance n)" by (simp add: advance_def)
    then show "mouse_repulsion dev sentinel (advance n) = Some (advance n)"
      by (rule sentinel_far)
  qed
  show "\<not> mobile dev \<longrightarrow> handle dev MouseLeave nn = Some (nn\<lparr>mouse := (-9999, -9999)\<rparr>)"
    by (simp add: on_mouseleave_def sentinel_def)
  show "mouseInf dev = (if isMid dev then 120 else 160)"
    by (simp add: mouseInf_def)
  show "let a = advance n; mdx = node_x a - fst ms; mdy = node_y a - snd ms; d = hypot mdx mdy;
            force = (mouseInf dev - d) / mouseInf dev * 0.7
        in (0 < d \<and> d < mouseInf dev \<longrightarrow>
              draw_node dev cw ch ms n =
                clamp_speed (a\<lparr>node_vx := node_vx a + mdx / d * force,
                               node_vy := node_vy a + mdy / d * force\<rparr>)
                  \<bind> (\<lambda>n2. Some (bounce cw ch n2)))
           \<and> (mouseInf dev \<le> d \<or> d = 0 \<longrightarrow>
              draw_node dev cw ch ms n =
                clamp_speed a \<bind> (\<lambda>n2. Some (bounce cw ch n2)))"
    unfolding Let_def
    using draw_node_near [of n ms dev cw ch] draw_node_far [of dev n ms cw ch]
    by blast
  show "0 \<le> node_x (advance n) \<and> 0 \<le> node_y (advance n) \<longrightarrow>
        draw_node dev cw ch sentinel n =
          clamp_speed (advance n) \<bind> (\<lambda>n2. Some (bounce cw ch n2))"
  proof
    assume "0 \<le> node_x (advance n) \<and> 0 \<le> node_y (advance n)"
    then have "mouse_repulsion dev sentinel (advance n) = Some (advance n)"
      by (intro sentinel_far) simp
    then show "draw_node dev cw ch sentinel n =
          clamp_speed (advance n) \<bind> (\<lambda>n2. Some (bounce cw ch n2))"
      by (simp add: draw_node_def)
  qed
  show "\<exists>nn'. draw dev nn = Some nn' \<and> mouse nn' = mouse nn \<and>
         length (nodes nn') = length (nodes nn) \<and>
         (\<forall>i < length (nodes nn).
            draw_node dev (canvas_width nn) (canvas_height nn) (mouse nn) (nodes nn ! i) =
              Some (nodes nn' ! i))"
    by (rule draw_applies_loop_body)
  show "handle dev Frame nn = draw dev nn" by simp
  show "\<not> mobile dev \<longrightarrow>
        handle dev (MouseMove clientX clientY) nn = Some (nn\<lparr>mouse := (clientX, clientY)\<rparr>)"
    by (simp add: on_mousemove_def)
  show "mobile dev \<longrightarrow>
        handle dev (TouchMove (touch # touches)) nn = Some (nn\<lparr>mouse := touch\<rparr>)"
    by (simp add: on_touchmove_def)
qed

theorem mouse_repulsion_impulse_witness:
  "0 < hypot (node_x node1 - 100) (node_y node1 - 100)
   \<and> hypot (node_x node1 - 100) (node_y node1 - 100) < mouseInf (Device desktop)
   \<and> mouse_repulsion (Device desktop) (100, 100) node1 =
       Some (node1\<lparr>node_vx := 3 / 5 * (155 / 160 * 0.7), node_vy := 4 / 5 * (155 / 160 * 0.7)\<rparr>)
   \<and> mouseInf (Device desktop) \<le> hypot (node_x node1 - 263) (node_y node1 - 100)
   \<and> mouse_repulsion (Device desktop) (263, 100) node1 = Some node1
   \<and> mouse_repulsion (Device desktop) sentinel node1 = Some node1
   \<and> mouse_repulsion (Device desktop) sentinel (advance node1) = Some (advance node1)
   \<and> handle (Device desktop) MouseLeave field0 = Some (field0\<lparr>mouse := (-9999, -9999)\<rparr>)
   \<and> draw_node (Device desktop) 1024 768 (100, 100) node1 =
       Some (node1\<lparr>node_vx := 3 / 5 * (155 / 160 * 0.7), node_vy := 4 / 5 * (155 / 160 * 0.7),
                   node_pulse := 0.018\<rparr>)
   \<and> draw_node (Device desktop) 1024 768 (263, 100) node1 = Some (node1\<lparr>node_pulse := 0.018\<rparr>)
   \<and> draw_node (Device desktop) 1024 768 sentinel node1 = Some (node1\<lparr>node_pulse := 0.018\<rparr>)
   \<and> run (Device desktop) [MouseMove 100 100, Frame] (field0\<lparr>nodes := [node1]\<rparr>) =
       Some (field0\<lparr>nodes := [node1\<lparr>node_vx := 3 / 5 * (155 / 160 * 0.7),
                                      node_vy := 4 / 5 * (155 / 160 * 0.7),
                                      node_pulse := 0.018\<rparr>],
                    mouse := (100, 100)\<rparr>)
   \<and> run (Device desktop) [MouseMove 100 100, MouseLeave, Frame] (field0\<lparr>nodes := [node1]\<rparr>) =
       Some (field0\<lparr>nodes := [node1\<lparr>node_pulse := 0.018\<rparr>]\<rparr>)"
proof -
  note thm_near = mouse_repulsion_impulse
    [where n = node1 and ms = "(100, 100)" and dev = "Device desktop" and nn = field0
       and cw = 1024 and ch = 768 and clientX = 100 and clientY = 100]
  note thm_far = mouse_repulsion_impulse
    [where n = node1 and ms = "(263, 100)" and dev = "Device desktop" and nn = field0
       and cw = 1024 and ch = 768 and clientX = 100 and clientY = 100]
  have far: "160 \<le> hypot (-160) 4"
    using hypot_ge_fst [of "-160" 4] by simp
  have zero: "hypot 0 0 = 0" by (simp add: hypot_def)
  have adv: "advance node1 = node1\<lparr>node_pulse := 0.018\<rparr>" by (simp add: advance_def)
  have helper: "0 < hypot (node_x node1 - 100) (node_y node1 - 100)
   \<and> hypot (node_x node1 - 100) (node_y node1 - 100) < mouseInf (Device desktop)
   \<and> mouse_repulsion (Device desktop) (100, 100) node1 =
       Some (node1\<lparr>node_vx := 3 / 5 * (155 / 160 * 0.7), node_vy := 4 / 5 * (155 / 160 * 0.7)\<rparr>)
   \<and> mouseInf (Device desktop) \<le> hypot (node_x node1 - 263) (node_y node1 - 100)
   \<and> mouse_repulsion (Device desktop) (263, 100) node1 = Some node1
   \<and> mouse_repulsion (Device desktop) sentinel node1 = Some node1
   \<and> mouse_repulsion (Device desktop) sentinel (advance node1) = Some (advance node1)
   \<and> handle (Device desktop) MouseLeave field0 = Some (field0\<lparr>mouse := (-9999, -9999)\<rparr>)"
    using thm_near thm_far hypot_3_4 far zero
    by (simp add: Let_def Device_desktop mouseInf_def)
  have slow: "hypot (3 / 5 * (155 / 160 * 0.7)) (4 / 5 * (155 / 160 * 0.7)) = 155 / 160 * 0.7"
    using thm_near hypot_3_4 by (simp add: Let_def Device_desktop mouseInf_def)
  have cl1: "clamp_speed (node1\<lparr>node_vx := 3 / 5 * (155 / 160 * 0.7),
        node_vy := 4 / 5 * (155 / 160 * 0.7), node_pulse := 0.018\<rparr>) =
      Some (node1\<lparr>node_vx := 3 / 5 * (155 / 160 * 0.7),
        node_vy := 4 / 5 * (155 / 160 * 0.7), node_pulse := 0.018\<rparr>)"
    using slow by (intro clamp_speed_id) simp
  have cl0: "clamp_speed (node1\<lparr>node_pulse := 0.018\<rparr>) = Some (node1\<lparr>node_pulse := 0.018\<rparr>)"
    using zero by (intro clamp_speed_id) simp
  have near: "draw_node (Device desktop) 1024 768 (100, 100) node1 =
       Some (node1\<lparr>node_vx := 3 / 5 * (155 / 160 * 0.7), node_vy := 4 / 5 * (155 / 160 * 0.7),
                   node_pulse := 0.018\<rparr>)"
    using thm_near hypot_3_4 cl1
    by (simp add: Let_def Device_desktop mouseInf_def adv bounce_def)
  have away: "draw_node (Device desktop) 1024 768 (263, 100) node1 = Some (node1\<lparr>node_pulse := 0.018\<rparr>)"
    using thm_far far cl0
    by (simp add: Let_def Device_desktop mouseInf_def adv bounce_def)
  have sent: "draw_node (Device desktop) 1024 768 sentinel node1 = Some (node1\<lparr>node_pulse := 0.018\<rparr>)"
    using mouse_repulsion_impulse
      [where n = node1 and ms = sentinel and dev = "Device desktop" and nn = field0
         and cw = 1024 and ch = 768 and clientX = 100 and clientY = 100] cl0
    by (simp add: adv bounce_def)
  have run1: "run (Device desktop) [MouseMove 100 100, Frame] (field0\<lparr>nodes := [node1]\<rparr>) =
       Some (field0\<lparr>nodes := [node1\<lparr>node_vx := 3 / 5 * (155 / 160 * 0.7),
                                      node_vy := 4 / 5 * (155 / 160 * 0.7),
                                      node_pulse := 0.018\<rparr>],
                    mouse := (100, 100)\<rparr>)"
    using near by (simp add: Device_desktop on_mousemove_def draw_def)
  have run2: "run (Device desktop) [MouseMove 100 100, MouseLeave, Frame] (field0\<lparr>nodes := [node1]\<rparr>) =
       Some (field0\<lparr>nodes := [node1\<lparr>node_pulse := 0.018\<rparr>]\<rparr>)"
    using sent by (simp add: Device_desktop on_mousemove_def on_mouseleave_def draw_def)
  from helper near away sent run1 run2 show ?thesis by blast
qed

text \<open>
  C10. The mouse-repulsion step always returns a node: each of its divisions has a
  non-zero divisor, because the impulse is computed under the guard
  \<open>0 < distance < influence radius\<close> only. With the pointer exactly on the node the
  velocity is unchanged. The same holds for the whole loop body and the whole tick.
\<close>

theorem mouse_repulsion_total:
  "(\<exists>n'. mouse_repulsion dev ms n = Some n')
   \<and> mouse_repulsion dev (node_x n, node_y n) n = Some n
   \<and> (mouse_repulsion dev ms n \<noteq> Some n \<longrightarrow>
        0 < hypot (node_x n - fst ms) (node_y n - snd ms) \<and>
        hypot (node_x n - fst ms) (node_y n - snd ms) < mouseInf dev)
   \<and> mouseInf dev \<noteq> 0
   \<and> (\<exists>n'. draw_node dev cw ch ms n = Some n')
   \<and> (\<exists>nn'. draw dev nn = Some nn')"
proof (intro conjI)
  show "\<exists>n'. mouse_repulsion dev ms n = Some n'" by (rule mouse_repulsion_Some)
  show "mouse_repulsion dev (node_x n, node_y n) n = Some n"
    by (rule mouse_repulsion_zero) (simp add: hypot_def)
  show "mouse_repulsion dev ms n \<noteq> Some n \<longrightarrow>
        0 < hypot (node_x n - fst ms) (node_y n - snd ms) \<and>
        hypot (node_x n - fst ms) (node_y n - snd ms) < mouseInf dev"
    by (auto simp add: mouse_repulsion_def Let_def)
  show "mouseInf dev \<noteq> 0" using mouseInf_pos [of dev] by simp
  show "\<exists>n'. draw_node dev cw ch ms n = Some n'" using draw_node_steps by blast
  show "\<exists>nn'. draw dev nn = Some nn'" by (rule draw_Some)
qed

theorem mouse_repulsion_total_witness:
  "mouse_repulsion (Device desktop) (100, 100) node1 \<noteq> Some node1
   \<and> 0 < hypot (node_x node1 - 100) (node_y node1 - 100)
   \<and> hypot (node_x node1 - 100) (node_y node1 - 100) < mouseInf (Device desktop)
   \<and> mouse_repulsion (Device desktop) (103, 104) node1 = Some node1"
proof -
  have "mouse_repulsion (Device desktop) (100, 100) node1 \<noteq> Some node1"
    using hypot_3_4 by (simp add: mouse_repulsion_def Let_def num_div_def mouseInf_def Device_desktop)
  then show ?thesis
    using mouse_repulsion_total [of "Device desktop" "(100, 100)" node1 1024 768 field0]
      mouse_repulsion_total [of "Device desktop" "(103, 104)" node1 1024 768 field0]
    by simp
qed

subsection \<open>The viewport bounds\<close>

text \<open>
  C8. After every completed draw tick every node lies within the canvas:
  \<open>0 \<le> x \<le> canvas.width\<close> and \<open>0 \<le> y \<le> canvas.height\<close>. When the position update
  carries a coordinate out of the bounds, the velocity component changes sign and the
  coordinate is clamped to the bound in the same tick.
\<close>

theorem nodes_stay_in_bounds:
  "(\<exists>nn'. run dev (evs @ [Frame]) nn = Some nn' \<and>
       (\<forall>n \<in> set (nodes nn').
          0 \<le> node_x n \<and> node_x n \<le> real (canvas_width nn') \<and>
          0 \<le> node_y n \<and> node_y n \<le> real (canvas_height nn')))
   \<and> (\<exists>n2. draw_node dev cw ch ms n = Some (bounce cw ch n2) \<and>
        node_x n2 = node_x n + node_vx n \<and> node_y n2 = node_y n + node_vy n \<and>
        (node_x n2 < 0 \<or> node_x n2 > real cw \<longrightarrow> node_vx (bounce cw ch n2) = - node_vx n2) \<and>
        (node_y n2 < 0 \<or> node_y n2 > real ch \<longrightarrow> node_vy (bounce cw ch n2) = - node_vy n2) \<and>
        (0 \<le> node_x n2 \<and> node_x n2 \<le> real cw \<longrightarrow>
           node_vx (bounce cw ch n2) = node_vx n2 \<and> node_x (bounce cw ch n2) = node_x n2) \<and>
        (0 \<le> node_y n2 \<and> node_y n2 \<le> real ch \<longrightarrow>
           node_vy (bounce cw ch n2) = node_vy n2 \<and> node_y (bounce cw ch n2) = node_y n2) \<and>
        node_x (bounce cw ch n2) = max 0 (min (real cw) (node_x n2)) \<and>
        node_y (bounce cw ch n2) = max 0 (min (real ch) (node_y n2)) \<and>
        0 \<le> node_x (bounce cw ch n2) \<and> node_x (bounce cw ch n2) \<le> real cw \<and>
        0 \<le> node_y (bounce cw ch n2) \<and> node_y (bounce cw ch n2) \<le> real ch)"
proof (intro conjI)
  obtain nn1 nn' where r: "run dev evs nn = Some nn1" "draw dev nn1 = Some nn'"
      "run dev (evs @ [Frame]) nn = Some nn'"
    using run_then_Frame by blast
  from draw_invariant(5) [OF r(2)]
  have "\<forall>n \<in> set (nodes nn').
          0 \<le> node_x n \<and> node_x n \<le> real (canvas_width nn') \<and>
          0 \<le> node_y n \<and> node_y n \<le> real (canvas_height nn')" by blast
  with r(3) show "\<exists>nn'. run dev (evs @ [Frame]) nn = Some nn' \<and>
       (\<forall>n \<in> set (nodes nn').
          0 \<le> node_x n \<and> node_x n \<le> real (canvas_width nn') \<and>
          0 \<le> node_y n \<and> node_y n \<le> real (canvas_height nn'))" by blast
next
  obtain n1 n2 where s: "mouse_repulsion dev ms (advance n) = Some n1" "clamp_speed n1 = Some n2"
      "draw_node dev cw ch ms n = Some (bounce cw ch n2)"
    using draw_node_steps by blast
  from mouse_repulsion_pos [OF s(1)] clamp_speed_pos [OF s(2)]
  have p: "node_x n2 = node_x n + node_vx n" "node_y n2 = node_y n + node_vy n"
    by (simp_all add: advance_def)
  have b: "(node_x n2 < 0 \<or> node_x n2 > real cw \<longrightarrow> node_vx (bounce cw ch n2) = - node_vx n2) \<and>
        (node_y n2 < 0 \<or> node_y n2 > real ch \<longrightarrow> node_vy (bounce cw ch n2) = - node_vy n2) \<and>
        (0 \<le> node_x n2 \<and> node_x n2 \<le> real cw \<longrightarrow>
           node_vx (bounce cw ch n2) = node_vx n2 \<and> node_x (bounce cw ch n2) = node_x n2) \<and>
        (0 \<le> node_y n2 \<and> node_y n2 \<le> real ch \<longrightarrow>
           node_vy (bounce cw ch n2) = node_vy n2 \<and> node_y (bounce cw ch n2) = node_y n2) \<and>
        node_x (bounce cw ch n2) = max 0 (min (real cw) (node_x n2)) \<and>
        node_y (bounce cw ch n2) = max 0 (min (real ch) (node_y n2))"
    by (simp add: bounce_def)
  from s(3) p b bounce_bounds [of cw ch n2]
  show "\<exists>n2. draw_node dev cw ch ms n = Some (bounce cw ch n2) \<and>
        node_x n2 = node_x n + node_vx n \<and> node_y n2 = node_y n + node_vy n \<and>
        (node_x n2 < 0 \<or> node_x n2 > real cw \<longrightarrow> node_vx (bounce cw ch n2) = - node_vx n2) \<and>
        (node_y n2 < 0 \<or> node_y n2 > real ch \<longrightarrow> node_vy (bounce cw ch n2) = - node_vy n2) \<and>
        (0 \<le> node_x n2 \<and> node_x n2 \<le> real cw \<longrightarrow>
           node_vx (bounce cw ch n2) = node_vx n2 \<and> node_x (bounce cw ch n2) = node_x n2) \<and>
        (0 \<le> node_y n2 \<and> node_y n2 \<le> real ch \<longrightarrow>
           node_vy (bounce cw ch n2) = node_vy n2 \<and> node_y (bounce cw ch n2) = node_y n2) \<and>
        node_x (bounce cw ch n2) = max 0 (min (real cw) (node_x n2)) \<and>
        node_y (bounce cw ch n2) = max 0 (min (real ch) (node_y n2)) \<and>
        0 \<le> node_x (bounce cw ch n2) \<and> node_x (bounce cw ch n2) \<le> real cw \<and>
        0 \<le> node_y (bounce cw ch n2) \<and> node_y (bounce cw ch n2) \<le> real ch"
    by blast
qed

theorem nodes_stay_in_bounds_witness:
  "(\<exists>nn'. run (Device desktop) ([MouseLeave] @ [Frame]) (field0\<lparr>nodes := [node2]\<rparr>) = Some nn' \<and>
       nodes nn' = [node2\<lparr>node_x := 1024, node_vx := -1, node_pulse := 0.018\<rparr>] \<and>
       canvas_width nn' = 1024 \<and>
       (\<forall>n \<in> set (nodes nn').
          0 \<le> node_x n \<and> node_x n \<le> real (canvas_width nn') \<and>
          0 \<le> node_y n \<and> node_y n \<le> real (canvas_height nn')))
   \<and> node_x node2 + node_vx node2 > real 1024
   \<and> draw_node (Device desktop) 1024 768 sentinel node2 =
       Some (node2\<lparr>node_x := 1024, node_vx := -1, node_pulse := 0.018\<rparr>)"
proof -
  obtain nn' where r: "run (Device desktop) ([MouseLeave] @ [Frame]) (field0\<lparr>nodes := [node2]\<rparr>) = Some nn'"
      "\<forall>n \<in> set (nodes nn').
          0 \<le> node_x n \<and> node_x n \<le> real (canvas_width nn') \<and>
          0 \<le> node_y n \<and> node_y n \<le> real (canvas_height nn')"
    using nodes_stay_in_bounds [of "Device desktop" "[MouseLeave]" "field0\<lparr>nodes := [node2]\<rparr>"
        1024 768 sentinel node2]
    by blast
  from r(1) have "draw (Device desktop) (field0\<lparr>nodes := [node2]\<rparr>) = Some nn'"
    by (simp add: Device_desktop on_mouseleave_def split: option.splits)
  then have "nodes nn' = [node2\<lparr>node_x := 1024, node_vx := -1, node_pulse := 0.018\<rparr>]
      \<and> canvas_width nn' = 1024"
    using draw_node2 by (auto simp add: draw_def split: option.splits)
  with r draw_node2 show ?thesis by simp
qed


section \<open>Properties of the constructors\<close>

lemma Device_calm:
  "Device calm = \<lparr>isLow = True, isMid = False, isHigh = False, mobile = False,
      reduced = True, cores = 8, mem = 8\<rparr>"
  by (simp add: Device_def Let_def or_default_def)

lemma reduced_is_low: "prefersReducedMotion w \<Longrightarrow> isLow (Device w) \<and> reduced (Device w)"
  by (simp add: Device_def Let_def)

lemma MatrixRain_low: "isLow dev \<Longrightarrow> MatrixRain dev w rnd p = (p, None)"
  by (simp add: MatrixRain_def)

lemma NeuralNetwork_low:
  assumes "isLow dev"
  shows "snd (NeuralNetwork dev w rnd p) = None"
    and "handles (fst (NeuralNetwork dev w rnd p)) = handles p"
    and "(case anchors (fst (NeuralNetwork dev w rnd p)) ''neural-canvas'' of
            None \<Rightarrow> True | Some c \<Rightarrow> display c = ''none'')"
  using assms by (simp_all add: NeuralNetwork_def split: option.splits)

lemma GlitchText_reduced: "reduced dev \<Longrightarrow> GlitchText dev p = (p, None)"
  by (simp add: GlitchText_def)

lemma missing_anchor_guarded:
  "anchors p ''matrix-canvas'' = None \<Longrightarrow> MatrixRain dev w rnd p = (p, None)"
  "anchors p ''neural-canvas'' = None \<Longrightarrow> NeuralNetwork dev w rnd p = (p, None)"
  "anchors p ''.glitch-name'' = None \<Longrightarrow> GlitchText dev p = (p, None)"
  by (simp_all add: MatrixRain_def NeuralNetwork_def GlitchText_def)

text \<open>
  C7. With reduced motion requested the tier is Low, and constructing the matrix rain,
  the neural network or the glitch text registers no schedule and builds no per-frame
  state. The neural network hides its canvas. The matrix rain returns before it looks its
  canvas up: on a page where \<open>#matrix-canvas\<close> is present and shown it stays present and
  shown, neither absent nor hidden.
\<close>

theorem reduced_motion_matrix_canvas_shown:
  "prefersReducedMotion calm \<and> isLow (Device calm)
   \<and> MatrixRain (Device calm) calm (\<lambda>i. 0) page0 = (page0, None)
   \<and> anchors (fst (MatrixRain (Device calm) calm (\<lambda>i. 0) page0)) ''matrix-canvas'' = Some shown
   \<and> display shown \<noteq> ''none''
   \<and> anchors (fst (NeuralNetwork (Device calm) calm (\<lambda>i. 0) page0)) ''neural-canvas'' =
       Some (shown\<lparr>display := ''none''\<rparr>)
   \<and> handles (fst (NeuralNetwork (Device calm) calm (\<lambda>i. 0) page0)) = []
   \<and> snd (NeuralNetwork (Device calm) calm (\<lambda>i. 0) page0) = None
   \<and> GlitchText (Device calm) page0 = (page0, None)"
  by (simp add: Device_calm MatrixRain_def NeuralNetwork_def GlitchText_def)

text \<open>
  C5. A missing anchor is not a silent early return in every driver. On a page without
  \<open>#particleCanvas\<close> the earlier page script ends with an uncaught TypeError before any
  of its other effects is registered, although their anchors are there; with the canvas
  present they start. On a page without \<open>#navbar\<close> the constructor of the navbar still
  registers its listeners, and the frame requested by the first scroll throws a TypeError
  with \<open>ticking\<close> left set. The constructors of the motion effects do return silently
  when their anchor is missing.
\<close>

theorem missing_anchor_throws:
  "anchors page0 ''particleCanvas'' = None
   \<and> page_script page0 = (Some TypeError, page0)
   \<and> fst (page_script (page0\<lparr>anchors := (anchors page0)(''particleCanvas'' \<mapsto> shown)\<rparr>)) = None
   \<and> Timeout 120 \<in> set (handles (snd (page_script
         (page0\<lparr>anchors := (anchors page0)(''particleCanvas'' \<mapsto> shown)\<rparr>))))
   \<and> anchors page0 ''navbar'' = None
   \<and> handles (fst (Navbar 2 page0)) =
       [Listener ''scroll'', Listener ''click'', Listener ''click'', Listener ''click'',
        Listener ''click'']
   \<and> Navbar_scroll (snd (Navbar 2 page0)) = (True, (snd (Navbar 2 page0))\<lparr>nb_ticking := True\<rparr>)
   \<and> Navbar_frame 100 (snd (Navbar_scroll (snd (Navbar 2 page0)))) = Inl TypeError
   \<and> NeuralNetwork (Device desktop) desktop (\<lambda>i. 0) (page0\<lparr>anchors := Map.empty\<rparr>) =
       (page0\<lparr>anchors := Map.empty\<rparr>, None)"
  by (simp add: page_script_def register_def Navbar_def Navbar_scroll_def Navbar_frame_def
      NeuralNetwork_def Device_desktop Let_def numeral_2_eq_2)

end
